theory Spec2Isabelle
  imports Complex_Main
begin

section \<open>Tensors and layers\<close>

text \<open>
  The equivariant attention block of \<^verbatim>\<open>en_transformer.py\<close>.

  A tensor is a function from its indices to the reals; its sizes are carried beside it
  (the node count \<open>n\<close>, the coordinate width \<open>cd\<close>, the sizes stored in each layer).
  Arithmetic is exact real arithmetic, with one float32 effect kept because the masking of
  attention logits relies on it: \<open>exp\<close> of a very negative argument underflows to zero
  (\<open>exp32\<close> below). Rounding is not modelled.
\<close>

type_synonym vec = "nat \<Rightarrow> real"

datatype error = AttributeError | AssertionError | RuntimeError

text \<open>\<^verbatim>\<open>nn.Linear\<close>: \<open>y = x W\<^sup>T + b\<close>, the bias absent when built with \<^verbatim>\<open>bias = False\<close>.\<close>

record Linear =
  in_features :: nat
  out_features :: nat
  weight :: "nat \<Rightarrow> nat \<Rightarrow> real"
  bias :: "(nat \<Rightarrow> real) option"

definition Linear_forward :: "Linear \<Rightarrow> vec \<Rightarrow> vec" where
  "Linear_forward l x =
     (\<lambda>r. (\<Sum>i<in_features l. x i * weight l r i) + (case bias l of None \<Rightarrow> 0 | Some b \<Rightarrow> b r))"

definition relu :: "real \<Rightarrow> real" where
  "relu x = max 0 x"

definition ReLU :: "vec \<Rightarrow> vec" where
  "ReLU x = (\<lambda>c. relu (x c))"

text \<open>\<^verbatim>\<open>nn.LayerNorm(d)\<close> over the last axis, of width \<open>normalized_shape\<close>.\<close>

record LayerNorm =
  normalized_shape :: nat
  ln_weight :: "nat \<Rightarrow> real"
  ln_bias :: "nat \<Rightarrow> real"
  ln_eps :: real

definition LayerNorm_forward :: "LayerNorm \<Rightarrow> vec \<Rightarrow> vec" where
  "LayerNorm_forward l x =
     (let d = normalized_shape l;
          mean = (\<Sum>i<d. x i) / real d;
          var = (\<Sum>i<d. (x i - mean)\<^sup>2) / real d
      in (\<lambda>c. (x c - mean) / sqrt (var + ln_eps l) * ln_weight l c + ln_bias l c))"

text \<open>
  The activations of \<^verbatim>\<open>torch.nn\<close> that the block names, looked up by attribute name as
  Python does: a name the module does not have raises \<^verbatim>\<open>AttributeError\<close>.
  \<^verbatim>\<open>GELU\<close> needs the error function, which is taken as a parameter \<open>gelu\<close>.
\<close>

definition nn_getattr :: "(real \<Rightarrow> real) \<Rightarrow> string \<Rightarrow> error + (real \<Rightarrow> real)" where
  "nn_getattr gelu name =
     (if name = ''Tanh'' then Inr tanh
      else if name = ''Identity'' then Inr (\<lambda>x. x)
      else if name = ''ReLU'' then Inr relu
      else if name = ''GELU'' then Inr gelu
      else Inl AttributeError)"

section \<open>Helper functions\<close>

text \<open>
  \<^verbatim>\<open>fourier_encode_dist(x, num_encodings)\<close> with \<^verbatim>\<open>include_self = True\<close>: the sines, then
  the cosines, of \<open>x / 2\<^sup>c\<close>, then \<open>x\<close> itself.
\<close>

definition fourier_encode_dist :: "real \<Rightarrow> nat \<Rightarrow> vec" where
  "fourier_encode_dist x num_encodings =
     (\<lambda>c. if c < num_encodings then sin (x / 2 ^ c)
          else if c < 2 * num_encodings then cos (x / 2 ^ (c - num_encodings))
          else x)"

text \<open>\<^verbatim>\<open>t.norm(dim = -1)\<close> on an axis of width \<open>cd\<close>.\<close>

definition vec_norm :: "nat \<Rightarrow> vec \<Rightarrow> real" where
  "vec_norm cd x = sqrt (\<Sum>c<cd. (x c)\<^sup>2)"

text \<open>
  \<^verbatim>\<open>t.topk(k, dim = -1, largest = False).indices\<close> on one row: the positions of the \<open>k\<close>
  smallest entries, nearest first. Equal entries are taken in index order (torch leaves
  their order open). A \<open>k\<close> beyond the row length is torch's "index out of range".
\<close>

definition topk_indices :: "nat \<Rightarrow> real list \<Rightarrow> nat list" where
  "topk_indices k row = take k (sort_key (\<lambda>j. row ! j) [0..<length row])"

text \<open>
  \<^verbatim>\<open>t.softmax(dim = -1)\<close> on a row of width \<open>J\<close>, computed as torch does, after subtracting
  the row maximum. In float32 the exponential of an argument below \<open>-104\<close> is below half
  the smallest subnormal \<open>2\<^sup>-\<^sup>1\<^sup>4\<^sup>9\<close> and rounds to zero.
\<close>

definition exp32 :: "real \<Rightarrow> real" where
  "exp32 x = (if x < - 104 then 0 else exp x)"

definition row_max :: "nat \<Rightarrow> vec \<Rightarrow> real" where
  "row_max J x = Max (x ` {..<J})"

definition softmax :: "nat \<Rightarrow> vec \<Rightarrow> vec" where
  "softmax J x = (\<lambda>j. exp32 (x j - row_max J x) / (\<Sum>l<J. exp32 (x l - row_max J x)))"

text \<open>\<^verbatim>\<open>torch.finfo(torch.float32).max\<close>.\<close>

definition finfo_max :: real where
  "finfo_max = (2 ^ 24 - 1) * 2 ^ 104"

section \<open>The modules\<close>

text \<open>\<^verbatim>\<open>CoorsNorm\<close>: \<open>fn = Sequential(LayerNorm(1), GELU())\<close>.\<close>

record CoorsNorm =
  eps :: real
  fn_0 :: LayerNorm
  fn_1 :: "real \<Rightarrow> real"

definition CoorsNorm_forward :: "CoorsNorm \<Rightarrow> nat \<Rightarrow> vec \<Rightarrow> vec" where
  "CoorsNorm_forward m cd coors =
     (let norm = vec_norm cd coors;
          phase = fn_1 m (LayerNorm_forward (fn_0 m) (\<lambda>_. norm) 0)
      in (\<lambda>c. phase * (coors c / max norm (eps m))))"

text \<open>
  The arguments of \<^verbatim>\<open>EquivariantAttention.__init__\<close>, and the block it builds. A
  \<^verbatim>\<open>Sequential\<close> is kept as its layers, named by position. \<open>valid_neighbor_radius\<close> is
  \<open>None\<close> for \<^verbatim>\<open>float('inf')\<close>.
\<close>

record config =
  dim :: nat
  dim_head :: nat
  heads :: nat
  edge_dim :: nat
  m_dim :: nat
  fourier_features :: nat
  norm_rel_coors :: bool
  norm_coor_weights :: bool
  num_nearest_neighbors :: nat
  only_sparse_neighbors :: bool
  valid_neighbor_radius :: "real option"
  init_eps :: real

record EquivariantAttention =
  fourier_features_of :: nat
  num_nearest_neighbors_of :: nat
  only_sparse_neighbors_of :: bool
  valid_neighbor_radius_of :: "real option"
  heads_of :: nat
  to_qkv :: Linear
  to_out :: Linear
  to_pos_emb_0 :: Linear
  to_pos_emb_2 :: Linear
  edge_mlp_0 :: Linear
  edge_mlp_2 :: Linear
  to_attn_mlp_0 :: Linear
  to_attn_mlp_2 :: Linear
  coors_mlp_0 :: Linear
  coors_mlp_2 :: Linear
  coors_mlp_4 :: "real \<Rightarrow> real"
  rel_coors_norm :: "CoorsNorm option"

text \<open>
  \<^verbatim>\<open>nn.Linear(i, o)\<close> followed by \<^verbatim>\<open>init_\<close>: the weight is drawn from a normal
  distribution of deviation \<open>init_eps\<close>, the bias from the layer's default. The draws are
  the parameters \<open>w\<close> and \<open>b\<close>, indexed by the position of the layer in the constructor.
\<close>

definition new_Linear ::
  "(nat \<Rightarrow> nat \<Rightarrow> nat \<Rightarrow> real) \<Rightarrow> (nat \<Rightarrow> nat \<Rightarrow> real) \<Rightarrow> nat \<Rightarrow> nat \<Rightarrow> nat \<Rightarrow> bool \<Rightarrow> Linear" where
  "new_Linear w b pos i r with_bias =
     \<lparr>in_features = i, out_features = r, weight = w pos,
      bias = (if with_bias then Some (b pos) else None)\<rparr>"

definition new_CoorsNorm :: "(real \<Rightarrow> real) \<Rightarrow> error + CoorsNorm" where
  "new_CoorsNorm gelu =
     (case nn_getattr gelu ''GELU'' of
        Inl e \<Rightarrow> Inl e
      | Inr act \<Rightarrow>
          Inr \<lparr>eps = 1 / 10 ^ 8,
               fn_0 = \<lparr>normalized_shape = 1, ln_weight = (\<lambda>_. 1), ln_bias = (\<lambda>_. 0),
                       ln_eps = 1 / 10 ^ 5\<rparr>,
               fn_1 = act\<rparr>)"

definition EquivariantAttention_init ::
  "(real \<Rightarrow> real) \<Rightarrow> (nat \<Rightarrow> nat \<Rightarrow> nat \<Rightarrow> real) \<Rightarrow> (nat \<Rightarrow> nat \<Rightarrow> real) \<Rightarrow> config
     \<Rightarrow> error + EquivariantAttention" where
  "EquivariantAttention_init gelu w b cfg =
     (let attn_inner_dim = heads cfg * dim_head cfg;
          pos_dim = fourier_features cfg * 2 + 1;
          edge_input_dim = dim_head cfg + edge_dim cfg
      in case (if norm_coor_weights cfg then nn_getattr gelu ''TanH''
               else nn_getattr gelu ''Identity'') of
           Inl e \<Rightarrow> Inl e
         | Inr coors_act \<Rightarrow>
            (case (if norm_rel_coors cfg then map_sum id Some (new_CoorsNorm gelu)
                   else Inr None) of
               Inl e \<Rightarrow> Inl e
             | Inr coors_norm \<Rightarrow>
                Inr \<lparr>fourier_features_of = fourier_features cfg,
                     num_nearest_neighbors_of = num_nearest_neighbors cfg,
                     only_sparse_neighbors_of = only_sparse_neighbors cfg,
                     valid_neighbor_radius_of = valid_neighbor_radius cfg,
                     heads_of = heads cfg,
                     to_qkv = new_Linear w b 0 (dim cfg) (attn_inner_dim * 3) False,
                     to_out = new_Linear w b 1 attn_inner_dim (dim cfg) True,
                     to_pos_emb_0 = new_Linear w b 2 pos_dim (dim_head cfg * 2) True,
                     to_pos_emb_2 = new_Linear w b 3 (dim_head cfg * 2) (dim_head cfg) True,
                     edge_mlp_0 = new_Linear w b 4 edge_input_dim (edge_input_dim * 2) True,
                     edge_mlp_2 = new_Linear w b 5 (edge_input_dim * 2) (m_dim cfg) True,
                     to_attn_mlp_0 = new_Linear w b 6 (m_dim cfg) (m_dim cfg * 4) True,
                     to_attn_mlp_2 = new_Linear w b 7 (m_dim cfg * 4) 1 True,
                     coors_mlp_0 = new_Linear w b 8 (m_dim cfg * heads cfg) (m_dim cfg * 4) True,
                     coors_mlp_2 = new_Linear w b 9 (m_dim cfg * 4) 1 True,
                     coors_mlp_4 = coors_act,
                     rel_coors_norm = coors_norm\<rparr>))"

section \<open>The forward pass\<close>

text \<open>
  One element of the batch: the node count, the width of a coordinate, and the slices of
  \<^verbatim>\<open>feats\<close>, \<^verbatim>\<open>coors\<close>, \<^verbatim>\<open>edges\<close> and \<^verbatim>\<open>mask\<close> for it. Every tensor operation of
  \<^verbatim>\<open>forward\<close> acts on each element of the batch by itself.
\<close>

record sample =
  nodes :: nat
  coor_dim :: nat
  feats_of :: "nat \<Rightarrow> vec"
  coors_of :: "nat \<Rightarrow> vec"
  edges_of :: "(nat \<Rightarrow> nat \<Rightarrow> vec) option"
  mask_of :: "(nat \<Rightarrow> bool) option"

text \<open>
  \<^verbatim>\<open>batched_index_select\<close> as \<^verbatim>\<open>forward\<close> calls it, on the neighbour axis: entry
  \<open>(i, jj)\<close> of the result is entry \<open>(i, indices[i, jj])\<close> of \<open>values\<close>. The neighbourhood
  is \<open>None\<close> in dense mode, where the tensors keep their node axis.
\<close>

type_synonym nbhd = "(nat \<Rightarrow> nat list) option"

definition batched_index_select :: "(nat \<Rightarrow> nat \<Rightarrow> 'a) \<Rightarrow> (nat \<Rightarrow> nat list) \<Rightarrow> nat \<Rightarrow> nat \<Rightarrow> 'a" where
  "batched_index_select values indices = (\<lambda>i jj. values i (indices i ! jj))"

definition gather :: "nbhd \<Rightarrow> (nat \<Rightarrow> nat \<Rightarrow> 'a) \<Rightarrow> nat \<Rightarrow> nat \<Rightarrow> 'a" where
  "gather nb values =
     (case nb of None \<Rightarrow> values | Some indices \<Rightarrow> batched_index_select values indices)"

text \<open>The node found at position \<open>jj\<close> of the neighbourhood of node \<open>i\<close>.\<close>

definition neighbor :: "nbhd \<Rightarrow> nat \<Rightarrow> nat \<Rightarrow> nat" where
  "neighbor nb i jj = gather nb (\<lambda>i j. j) i jj"

definition rel_coors :: "sample \<Rightarrow> nat \<Rightarrow> nat \<Rightarrow> vec" where
  "rel_coors x i j = (\<lambda>c. coors_of x i c - coors_of x j c)"

definition rel_dist :: "sample \<Rightarrow> nat \<Rightarrow> nat \<Rightarrow> real" where
  "rel_dist x i j = vec_norm (coor_dim x) (rel_coors x i j)"

text \<open>Lines 186 to 194: the ranking, padding pushed to distance \<open>1e5\<close>, and its top-k.\<close>

definition nbhd_ranking :: "sample \<Rightarrow> nat \<Rightarrow> real list" where
  "nbhd_ranking x i =
     map (\<lambda>j. case mask_of x of
                None \<Rightarrow> rel_dist x i j
              | Some mk \<Rightarrow> if \<not> (mk i \<and> mk j) then 10 ^ 5 else rel_dist x i j)
         [0..<nodes x]"

definition nbhd_indices :: "EquivariantAttention \<Rightarrow> sample \<Rightarrow> nbhd" where
  "nbhd_indices m x =
     (if num_nearest_neighbors_of m > 0
      then Some (\<lambda>i. topk_indices (num_nearest_neighbors_of m) (nbhd_ranking x i))
      else None)"

text \<open>The width \<open>j\<close> of the neighbour axis (line 211 and line 214).\<close>

definition nbhd_size :: "EquivariantAttention \<Rightarrow> sample \<Rightarrow> nat" where
  "nbhd_size m x =
     (case nbhd_indices m x of None \<Rightarrow> nodes x | Some _ \<Rightarrow> num_nearest_neighbors_of m)"

text \<open>Lines 196 to 202: the distance, Fourier-encoded when \<open>fourier_features > 0\<close>.\<close>

definition dist_feats :: "EquivariantAttention \<Rightarrow> real \<Rightarrow> vec" where
  "dist_feats m d =
     (if fourier_features_of m > 0 then fourier_encode_dist d (fourier_features_of m)
      else (\<lambda>_. d))"

text \<open>
  Lines 206 and 207: \<^verbatim>\<open>to_qkv(feats).chunk(3, dim = -1)\<close>, each chunk split into heads.
  \<open>qkv m x c h i\<close> is chunk \<open>c\<close> (0 for \<open>q\<close>, 1 for \<open>k\<close>, 2 for \<open>v\<close>) for head \<open>h\<close> and node \<open>i\<close>.
\<close>

definition chunk_size :: "EquivariantAttention \<Rightarrow> nat" where
  "chunk_size m = (out_features (to_qkv m) + 2) div 3"

definition head_dim :: "EquivariantAttention \<Rightarrow> nat" where
  "head_dim m = chunk_size m div heads_of m"

definition qkv :: "EquivariantAttention \<Rightarrow> sample \<Rightarrow> nat \<Rightarrow> nat \<Rightarrow> nat \<Rightarrow> vec" where
  "qkv m x c h i =
     (\<lambda>d. Linear_forward (to_qkv m) (feats_of x i) (c * chunk_size m + h * head_dim m + d))"

definition to_pos_emb :: "EquivariantAttention \<Rightarrow> vec \<Rightarrow> vec" where
  "to_pos_emb m t = Linear_forward (to_pos_emb_2 m) (ReLU (Linear_forward (to_pos_emb_0 m) t))"

definition edge_mlp :: "EquivariantAttention \<Rightarrow> vec \<Rightarrow> vec" where
  "edge_mlp m t = ReLU (Linear_forward (edge_mlp_2 m) (ReLU (Linear_forward (edge_mlp_0 m) t)))"

definition to_attn_mlp :: "EquivariantAttention \<Rightarrow> vec \<Rightarrow> real" where
  "to_attn_mlp m t =
     Linear_forward (to_attn_mlp_2 m) (ReLU (Linear_forward (to_attn_mlp_0 m) t)) 0"

definition coors_mlp :: "EquivariantAttention \<Rightarrow> vec \<Rightarrow> real" where
  "coors_mlp m t =
     coors_mlp_4 m (Linear_forward (coors_mlp_2 m) (ReLU (Linear_forward (coors_mlp_0 m) t)) 0)"

text \<open>Line 224, on the gathered distances.\<close>

definition rel_dist_pos_emb :: "EquivariantAttention \<Rightarrow> nbhd \<Rightarrow> sample \<Rightarrow> nat \<Rightarrow> nat \<Rightarrow> vec" where
  "rel_dist_pos_emb m nb x i jj =
     to_pos_emb m (gather nb (\<lambda>i j. dist_feats m (rel_dist x i j)) i jj)"

text \<open>Lines 216, 217, 221, 222 and 228: keys and values per neighbour, position injected.\<close>

definition keys :: "EquivariantAttention \<Rightarrow> nbhd \<Rightarrow> sample \<Rightarrow> nat \<Rightarrow> nat \<Rightarrow> nat \<Rightarrow> vec" where
  "keys m nb x h i jj = gather nb (\<lambda>i j. qkv m x 1 h j) i jj"

definition vals :: "EquivariantAttention \<Rightarrow> nbhd \<Rightarrow> sample \<Rightarrow> nat \<Rightarrow> nat \<Rightarrow> nat \<Rightarrow> vec" where
  "vals m nb x h i jj =
     (\<lambda>d. gather nb (\<lambda>i j. qkv m x 2 h j) i jj d + rel_dist_pos_emb m nb x i jj d)"

text \<open>Lines 232 to 240: the pair mask \<open>q_mask * k_mask\<close>, for a given node mask.\<close>

definition pair_mask :: "nbhd \<Rightarrow> (nat \<Rightarrow> bool) \<Rightarrow> nat \<Rightarrow> nat \<Rightarrow> bool" where
  "pair_mask nb mk i jj = (mk i \<and> gather nb (\<lambda>i j. mk j) i jj)"

text \<open>Lines 244 to 255: the input of the message network, and the messages.\<close>

definition edge_input :: "EquivariantAttention \<Rightarrow> nbhd \<Rightarrow> sample \<Rightarrow> nat \<Rightarrow> nat \<Rightarrow> nat \<Rightarrow> vec" where
  "edge_input m nb x h i jj =
     (let t = (\<lambda>d. qkv m x 0 h i d - keys m nb x h i jj d + rel_dist_pos_emb m nb x i jj d)
      in case edges_of x of
           None \<Rightarrow> t
         | Some e \<Rightarrow> (\<lambda>c. if c < head_dim m then t c else gather nb e i jj (c - head_dim m)))"

definition m_ij :: "EquivariantAttention \<Rightarrow> nbhd \<Rightarrow> sample \<Rightarrow> nat \<Rightarrow> nat \<Rightarrow> nat \<Rightarrow> vec" where
  "m_ij m nb x h i jj = edge_mlp m (edge_input m nb x h i jj)"

text \<open>Lines 257 to 262: the coordinate weights, masked pairs set to \<open>0\<close>.\<close>

definition coor_mlp_input :: "EquivariantAttention \<Rightarrow> nbhd \<Rightarrow> sample \<Rightarrow> nat \<Rightarrow> nat \<Rightarrow> vec" where
  "coor_mlp_input m nb x i jj =
     (\<lambda>c. m_ij m nb x (c div out_features (edge_mlp_2 m)) i jj (c mod out_features (edge_mlp_2 m)))"

definition coor_weights :: "EquivariantAttention \<Rightarrow> nbhd \<Rightarrow> sample \<Rightarrow> nat \<Rightarrow> nat \<Rightarrow> real" where
  "coor_weights m nb x i jj =
     (case mask_of x of
        None \<Rightarrow> coors_mlp m (coor_mlp_input m nb x i jj)
      | Some mk \<Rightarrow>
          if \<not> pair_mask nb mk i jj then 0 else coors_mlp m (coor_mlp_input m nb x i jj))"

text \<open>Lines 219, 264 and 265: the displacements per neighbour, normalised, and their mix.\<close>

definition rel_coors_normed :: "EquivariantAttention \<Rightarrow> nbhd \<Rightarrow> sample \<Rightarrow> nat \<Rightarrow> nat \<Rightarrow> vec" where
  "rel_coors_normed m nb x i jj =
     (case rel_coors_norm m of
        None \<Rightarrow> gather nb (rel_coors x) i jj
      | Some cn \<Rightarrow> CoorsNorm_forward cn (coor_dim x) (gather nb (rel_coors x) i jj))"

definition coors_out :: "EquivariantAttention \<Rightarrow> sample \<Rightarrow> nat \<Rightarrow> vec" where
  "coors_out m x i =
     (let nb = nbhd_indices m x
      in (\<lambda>c. \<Sum>jj<nbhd_size m x. coor_weights m nb x i jj * rel_coors_normed m nb x i jj c))"

text \<open>Lines 269 to 275: the logits, masked pairs set to \<open>-finfo.max\<close>, and their softmax.\<close>

definition sim :: "EquivariantAttention \<Rightarrow> nbhd \<Rightarrow> sample \<Rightarrow> nat \<Rightarrow> nat \<Rightarrow> vec" where
  "sim m nb x h i =
     (\<lambda>jj. case mask_of x of
             None \<Rightarrow> to_attn_mlp m (m_ij m nb x h i jj)
           | Some mk \<Rightarrow>
               if \<not> pair_mask nb mk i jj then - finfo_max
               else to_attn_mlp m (m_ij m nb x h i jj))"

definition attn :: "EquivariantAttention \<Rightarrow> sample \<Rightarrow> nat \<Rightarrow> nat \<Rightarrow> vec" where
  "attn m x h i = softmax (nbhd_size m x) (sim m (nbhd_indices m x) x h i)"

text \<open>Lines 279 to 281: the weighted values, heads joined, projected by \<open>to_out\<close>.\<close>

definition heads_out :: "EquivariantAttention \<Rightarrow> sample \<Rightarrow> nat \<Rightarrow> nat \<Rightarrow> vec" where
  "heads_out m x h i =
     (\<lambda>d. \<Sum>jj<nbhd_size m x. attn m x h i jj * vals m (nbhd_indices m x) x h i jj d)"

definition feats_out :: "EquivariantAttention \<Rightarrow> sample \<Rightarrow> nat \<Rightarrow> vec" where
  "feats_out m x i =
     Linear_forward (to_out m) (\<lambda>c. heads_out m x (c div head_dim m) i (c mod head_dim m))"

text \<open>
  \<^verbatim>\<open>EquivariantAttention.forward\<close> on a batch: \<open>feats\<close>, \<open>coors\<close>, \<open>edges\<close> and \<open>mask\<close> carry
  the batch index first. The assertion of line 177 comes first; \<^verbatim>\<open>topk\<close> raises when
  asked for more indices than there are nodes. The result is
  \<open>(feature_delta, coordinate_delta)\<close>.
\<close>

definition sample_at ::
  "nat \<Rightarrow> nat \<Rightarrow> (nat \<Rightarrow> nat \<Rightarrow> vec) \<Rightarrow> (nat \<Rightarrow> nat \<Rightarrow> vec) \<Rightarrow> (nat \<Rightarrow> nat \<Rightarrow> nat \<Rightarrow> vec) option
     \<Rightarrow> (nat \<Rightarrow> nat \<Rightarrow> bool) option \<Rightarrow> nat \<Rightarrow> sample" where
  "sample_at n cd feats coors edges msk b =
     \<lparr>nodes = n, coor_dim = cd, feats_of = feats b, coors_of = coors b,
      edges_of = map_option (\<lambda>e. e b) edges, mask_of = map_option (\<lambda>k. k b) msk\<rparr>"

definition forward ::
  "EquivariantAttention \<Rightarrow> nat \<Rightarrow> nat \<Rightarrow> (nat \<Rightarrow> nat \<Rightarrow> vec) \<Rightarrow> (nat \<Rightarrow> nat \<Rightarrow> vec)
     \<Rightarrow> (nat \<Rightarrow> nat \<Rightarrow> nat \<Rightarrow> vec) option \<Rightarrow> (nat \<Rightarrow> nat \<Rightarrow> bool) option
     \<Rightarrow> (nat \<Rightarrow> nat \<Rightarrow> nat \<Rightarrow> bool) option
     \<Rightarrow> error + ((nat \<Rightarrow> nat \<Rightarrow> vec) \<times> (nat \<Rightarrow> nat \<Rightarrow> vec))" where
  "forward m n cd feats coors edges msk adj_mat =
     (let valid_neighbor_radius = valid_neighbor_radius_of m
      in if only_sparse_neighbors_of m \<and> adj_mat = None then Inl AssertionError
         else if n < num_nearest_neighbors_of m then Inl RuntimeError
         else Inr (\<lambda>b. feats_out m (sample_at n cd feats coors edges msk b),
                   \<lambda>b. coors_out m (sample_at n cd feats coors edges msk b)))"

section \<open>Transformations of the input, and example data\<close>

text \<open>A matrix applied to a coordinate vector (\<open>coors \<cdot> R\<^sup>T\<close>), and a translation by \<open>t\<close>.\<close>

definition rotate_vec :: "(nat \<Rightarrow> nat \<Rightarrow> real) \<Rightarrow> nat \<Rightarrow> vec \<Rightarrow> vec" where
  "rotate_vec R cd v = (\<lambda>c. \<Sum>d<cd. v d * R c d)"

definition translate :: "vec \<Rightarrow> vec \<Rightarrow> vec" where
  "translate t v = (\<lambda>c. v c + t c)"

text \<open>The quarter turn about the third axis.\<close>

definition quarter_turn :: "nat \<Rightarrow> nat \<Rightarrow> real" where
  "quarter_turn c d =
     (if c = 0 \<and> d = 1 then - 1
      else if c = 1 \<and> d = 0 then 1
      else if c = 2 \<and> d = 2 then 1
      else 0)"

text \<open>
  A small block: one head of width one, no Fourier features, every weight and bias zero
  but the last bias of \<open>coors_mlp\<close>, which is one. Its logits are all \<open>0\<close> and its
  coordinate weights all \<open>1\<close>.
\<close>

definition zero_Linear :: "nat \<Rightarrow> nat \<Rightarrow> real \<Rightarrow> Linear" where
  "zero_Linear i r c =
     \<lparr>in_features = i, out_features = r, weight = (\<lambda>_ _. 0), bias = Some (\<lambda>_. c)\<rparr>"

definition example_block :: EquivariantAttention where
  "example_block =
     \<lparr>fourier_features_of = 0, num_nearest_neighbors_of = 0,
      only_sparse_neighbors_of = False, valid_neighbor_radius_of = None, heads_of = 1,
      to_qkv = \<lparr>in_features = 1, out_features = 3, weight = (\<lambda>_ _. 0), bias = None\<rparr>,
      to_out = zero_Linear 1 1 0,
      to_pos_emb_0 = zero_Linear 1 2 0, to_pos_emb_2 = zero_Linear 2 1 0,
      edge_mlp_0 = zero_Linear 1 2 0, edge_mlp_2 = zero_Linear 2 1 0,
      to_attn_mlp_0 = zero_Linear 1 4 0, to_attn_mlp_2 = zero_Linear 4 1 0,
      coors_mlp_0 = zero_Linear 1 4 0, coors_mlp_2 = zero_Linear 4 1 1,
      coors_mlp_4 = (\<lambda>t. t), rel_coors_norm = None\<rparr>"

text \<open>The same block in "only sparse neighbors" mode, and with two nearest neighbours.\<close>

definition sparse_block :: EquivariantAttention where
  "sparse_block = example_block\<lparr>only_sparse_neighbors_of := True\<rparr>"

definition knn_block :: EquivariantAttention where
  "knn_block = example_block\<lparr>num_nearest_neighbors_of := 2\<rparr>"

text \<open>A batch of one: nodes on the first axis, node \<open>i\<close> at \<open>i \<cdot> spacing\<close>; features all one.\<close>

definition line_coors :: "real \<Rightarrow> nat \<Rightarrow> nat \<Rightarrow> vec" where
  "line_coors spacing b i = (\<lambda>c. if c = 0 then real i * spacing else 0)"

definition unit_feats :: "nat \<Rightarrow> nat \<Rightarrow> vec" where
  "unit_feats b i = (\<lambda>_. 1)"

text \<open>The mask that marks the nodes below \<open>k\<close> valid, and the empty adjacency matrix.\<close>

definition first_valid :: "nat \<Rightarrow> nat \<Rightarrow> nat \<Rightarrow> bool" where
  "first_valid k b i = (i < k)"

definition no_edges :: "nat \<Rightarrow> nat \<Rightarrow> nat \<Rightarrow> bool" where
  "no_edges b i j = False"

section \<open>Properties\<close>

lemmas block_defs = feats_out_def coors_out_def heads_out_def attn_def sim_def
  rel_coors_normed_def coor_weights_def coor_mlp_input_def m_ij_def edge_input_def
  vals_def keys_def rel_dist_pos_emb_def coors_mlp_def to_attn_mlp_def edge_mlp_def
  to_pos_emb_def qkv_def head_dim_def chunk_size_def dist_feats_def nbhd_size_def
  nbhd_indices_def

text \<open>
  Claim C3: with \<open>norm_coor_weights\<close> enabled the coordinate weights are to pass through a
  tanh, and such a block is to be constructible. The constructor asks \<^verbatim>\<open>torch.nn\<close> for
  \<^verbatim>\<open>TanH\<close>; the module is called \<^verbatim>\<open>Tanh\<close>, so the lookup fails and, whatever the
  other options and the drawn parameters, no block is built.
\<close>

theorem norm_coor_weights_init_fails:
  "EquivariantAttention_init gelu w b (cfg\<lparr>norm_coor_weights := True\<rparr>) = Inl AttributeError"
  by (simp add: EquivariantAttention_init_def nn_getattr_def Let_def)

text \<open>
  Claim C8: in "only sparse neighbors" mode a forward call without an adjacency matrix
  fails with the assertion error, and returns nothing else; with an adjacency matrix
  passed, whatever the mode, the result is not that error.
\<close>

theorem forward_sparse_without_adjacency:
  "forward (m\<lparr>only_sparse_neighbors_of := True\<rparr>) n cd feats coors edges msk None
     = Inl AssertionError
   \<and> forward m n cd feats coors edges msk (Some adj) \<noteq> Inl AssertionError"
  by (simp add: forward_def Let_def)

lemma feats_out_radius:
  "feats_out (m\<lparr>valid_neighbor_radius_of := r\<rparr>) = feats_out m"
  by (intro ext) (simp add: block_defs Let_def cong: if_cong option.case_cong)

lemma coors_out_radius:
  "coors_out (m\<lparr>valid_neighbor_radius_of := r\<rparr>) = coors_out m"
  by (intro ext) (simp add: block_defs Let_def cong: if_cong option.case_cong)

lemma forward_radius:
  "forward (m\<lparr>valid_neighbor_radius_of := r\<rparr>) n cd feats coors edges msk adj
     = forward m n cd feats coors edges msk adj"
  by (simp add: forward_def Let_def feats_out_radius coors_out_radius)

lemma init_radius:
  "EquivariantAttention_init gelu w b (cfg\<lparr>valid_neighbor_radius := r\<rparr>)
     = map_sum id (\<lambda>m. m\<lparr>valid_neighbor_radius_of := r\<rparr>) (EquivariantAttention_init gelu w b cfg)"
  by (simp add: EquivariantAttention_init_def Let_def split: sum.splits)

text \<open>
  Claim C10: \<open>valid_neighbor_radius\<close> has no effect. Two blocks that differ in that field
  only give the same result on every input, and so do two blocks constructed from
  configurations that differ in that option only (with the same drawn parameters).
\<close>

theorem valid_neighbor_radius_unused:
  "forward (m\<lparr>valid_neighbor_radius_of := r\<rparr>) n cd feats coors edges msk adj
     = forward (m\<lparr>valid_neighbor_radius_of := r'\<rparr>) n cd feats coors edges msk adj
   \<and> (case EquivariantAttention_init gelu w b (cfg\<lparr>valid_neighbor_radius := r\<rparr>) of
         Inl e \<Rightarrow> Inl e | Inr m \<Rightarrow> forward m n cd feats coors edges msk adj)
     = (case EquivariantAttention_init gelu w b (cfg\<lparr>valid_neighbor_radius := r'\<rparr>) of
         Inl e \<Rightarrow> Inl e | Inr m \<Rightarrow> forward m n cd feats coors edges msk adj)"
  by (cases "EquivariantAttention_init gelu w b cfg")
     (simp_all add: forward_radius init_radius [where r = r] init_radius [where r = r'])

lemma feats_out_sparse_flag:
  "feats_out (m\<lparr>only_sparse_neighbors_of := f\<rparr>) = feats_out m"
  by (intro ext) (simp add: block_defs Let_def cong: if_cong option.case_cong)

lemma coors_out_sparse_flag:
  "coors_out (m\<lparr>only_sparse_neighbors_of := f\<rparr>) = coors_out m"
  by (intro ext) (simp add: block_defs Let_def cong: if_cong option.case_cong)

text \<open>
  Claim C4, as the code has it: an adjacency matrix that is passed is only checked for
  presence. The result in "only sparse neighbors" mode, for any adjacency matrix, is the
  result of the same block outside that mode, with any adjacency matrix or none.
\<close>

theorem adjacency_only_checked:
  "forward m n cd feats coors edges msk (Some adj)
     = forward (m\<lparr>only_sparse_neighbors_of := False\<rparr>) n cd feats coors edges msk adj'"
  by (simp add: forward_def Let_def feats_out_sparse_flag coors_out_sparse_flag)


subsection \<open>Gathering, softmax and the example block\<close>

lemma gather_comp: "gather nb (\<lambda>i j. f (v i j)) i jj = f (gather nb v i jj)"
  by (simp add: gather_def batched_index_select_def split: option.splits)

lemma gather_neighbor: "gather nb v i jj = v i (neighbor nb i jj)"
  by (simp add: neighbor_def gather_def batched_index_select_def split: option.splits)

lemma pair_mask_neighbor: "pair_mask nb mk i jj = (mk i \<and> mk (neighbor nb i jj))"
  by (simp add: pair_mask_def gather_neighbor)

lemma sum_below_2: "(\<Sum>jj<(2::nat). f jj) = f 0 + (f 1 :: real)"
  by (simp add: numeral_2_eq_2)

lemma exp32_nonneg: "0 \<le> exp32 t"
  by (simp add: exp32_def)

lemma row_max_attained:
  assumes "0 < J"
  shows "\<exists>l<J. x l = row_max J x" and "\<And>l. l < J \<Longrightarrow> x l \<le> row_max J x"
proof -
  have fin: "finite (x ` {..<J})" and ne: "x ` {..<J} \<noteq> {}"
    using assms by auto
  from Max_in [OF fin ne] show "\<exists>l<J. x l = row_max J x"
    by (auto simp: row_max_def)
  show "\<And>l. l < J \<Longrightarrow> x l \<le> row_max J x"
    using fin by (simp add: row_max_def)
qed

lemma softmax_denominator:
  assumes "0 < J"
  shows "1 \<le> (\<Sum>l<J. exp32 (x l - row_max J x))"
proof -
  obtain l0 where l0: "l0 < J" "x l0 = row_max J x"
    using row_max_attained(1) [OF assms] by blast
  have "exp32 (x l0 - row_max J x) \<le> (\<Sum>l<J. exp32 (x l - row_max J x))"
    by (rule member_le_sum) (use l0 in \<open>auto simp: exp32_nonneg\<close>)
  then show ?thesis using l0 by (simp add: exp32_def)
qed

lemma softmax_const:
  assumes "0 < J"
  shows "softmax J (\<lambda>_. c) j = 1 / real J"
proof -
  have "row_max J (\<lambda>_. c) = c"
    using row_max_attained(1) [OF assms, of "\<lambda>_. c"] by auto
  then show ?thesis using assms by (simp add: softmax_def exp32_def)
qed

lemma example_to_attn_mlp:
  "to_attn_mlp_0 m = to_attn_mlp_0 example_block \<Longrightarrow> to_attn_mlp_2 m = to_attn_mlp_2 example_block
     \<Longrightarrow> to_attn_mlp m t = 0"
  by (simp add: to_attn_mlp_def example_block_def zero_Linear_def Linear_forward_def)

lemma example_coors_mlp:
  "coors_mlp_2 m = coors_mlp_2 example_block \<Longrightarrow> coors_mlp_4 m = coors_mlp_4 example_block
     \<Longrightarrow> coors_mlp m t = 1"
  by (simp add: coors_mlp_def example_block_def zero_Linear_def Linear_forward_def)

subsection \<open>Adjacency\<close>

text \<open>
  Claim C4 as stated fails: in "only sparse neighbors" mode with \<open>k = 0\<close> and an adjacency
  matrix without any edge, node \<open>0\<close> of two nodes still gives attention weight \<open>1/2\<close> and
  coordinate weight \<open>1\<close> to node \<open>1\<close>, and its coordinate delta is \<open>-1\<close> on the first axis.
\<close>

theorem adjacency_ignored_counterexample:
  "\<not> isl (forward sparse_block 2 3 unit_feats (line_coors 1) None None (Some no_edges))
   \<and> attn sparse_block (sample_at 2 3 unit_feats (line_coors 1) None None 0) 0 0 1 = 1 / 2
   \<and> coor_weights sparse_block None (sample_at 2 3 unit_feats (line_coors 1) None None 0) 0 1 = 1
   \<and> snd (projr (forward sparse_block 2 3 unit_feats (line_coors 1) None None (Some no_edges)))
        0 0 0 = - 1
   \<and> \<not> no_edges 0 0 1"
proof -
  let ?x = "sample_at 2 3 unit_feats (line_coors 1) None None 0"
  have nb: "nbhd_indices sparse_block ?x = None" "nbhd_size sparse_block ?x = 2"
    by (simp_all add: nbhd_indices_def nbhd_size_def sparse_block_def example_block_def
          sample_at_def)
  have msk: "mask_of ?x = None" by (simp add: sample_at_def)
  have s: "sim sparse_block None ?x 0 0 = (\<lambda>_. 0)"
    by (simp add: sim_def msk example_to_attn_mlp sparse_block_def)
  have a: "attn sparse_block ?x 0 0 1 = 1 / 2"
    by (simp add: attn_def nb s softmax_const)
  have w: "coor_weights sparse_block None ?x 0 jj = 1" for jj
    by (simp add: coor_weights_def msk example_coors_mlp sparse_block_def)
  have r: "rel_coors_normed sparse_block None ?x 0 jj 0 = - real jj" for jj
    by (simp add: rel_coors_normed_def sparse_block_def example_block_def gather_def
          rel_coors_def sample_at_def line_coors_def)
  have c: "coors_out sparse_block ?x 0 0 = - 1"
    by (simp add: coors_out_def nb Let_def w r sum_below_2)
  show ?thesis
    using a w c by (simp add: forward_def Let_def sparse_block_def example_block_def no_edges_def)
qed


subsection \<open>Masking\<close>

lemma masked_sample [simp]:
  "mask_of (sample_at n cd feats coors edges (Some mk) b) = Some (mk b)"
  "nodes (sample_at n cd feats coors edges msk b) = n"
  by (simp_all add: sample_at_def)

lemma example_nbhd [simp]:
  "nbhd_indices example_block x = None" "nbhd_size example_block x = nodes x"
  by (simp_all add: nbhd_indices_def nbhd_size_def example_block_def)

text \<open>
  Claim C6: with a mask, the coordinate weight of every pair with an invalid endpoint
  is exactly \<open>0\<close>, so the pair adds the zero vector, and the coordinate delta is the
  weighted sum over the pairs of two valid nodes alone.
\<close>

theorem coordinate_update_masked:
  assumes "mask_of x = Some mk"
  shows "(\<not> mk i \<or> \<not> mk (neighbor nb i jj) \<longrightarrow>
            coor_weights m nb x i jj = 0
            \<and> coor_weights m nb x i jj * rel_coors_normed m nb x i jj c = 0)
         \<and> coors_out m x i c =
             (\<Sum>jj\<in>{jj. jj < nbhd_size m x \<and> mk i \<and> mk (neighbor (nbhd_indices m x) i jj)}.
                coor_weights m (nbhd_indices m x) x i jj
                  * rel_coors_normed m (nbhd_indices m x) x i jj c)"
proof -
  have zero: "coor_weights m nb' x i l = 0" if "\<not> mk i \<or> \<not> mk (neighbor nb' i l)" for nb' l
    using that assms by (auto simp: coor_weights_def pair_mask_neighbor)
  let ?V = "{jj. jj < nbhd_size m x \<and> mk i \<and> mk (neighbor (nbhd_indices m x) i jj)}"
  let ?f = "\<lambda>jj. coor_weights m (nbhd_indices m x) x i jj
                  * rel_coors_normed m (nbhd_indices m x) x i jj c"
  have "sum ?f ?V = sum ?f {..<nbhd_size m x}"
    by (rule sum.mono_neutral_left) (auto simp: zero)
  then show ?thesis
    by (auto simp: zero coors_out_def Let_def)
qed

theorem coordinate_update_masked_witness:
  "mask_of (sample_at 3 3 unit_feats (line_coors 1) None (Some (first_valid 2)) 0)
     = Some (first_valid 2 0)
   \<and> \<not> first_valid 2 0 (neighbor None 0 2)
   \<and> coor_weights example_block None
        (sample_at 3 3 unit_feats (line_coors 1) None (Some (first_valid 2)) 0) 0 2 = 0
   \<and> coors_out example_block
        (sample_at 3 3 unit_feats (line_coors 1) None (Some (first_valid 2)) 0) 0 0 = - 1"
proof -
  let ?x = "sample_at 3 3 unit_feats (line_coors 1) None (Some (first_valid 2)) 0"
  have h1: "mask_of ?x = Some (first_valid 2 0)"
    by simp
  have h2: "\<not> first_valid 2 0 (neighbor None 0 2)"
    by (simp add: first_valid_def neighbor_def gather_def)
  note T = coordinate_update_masked [OF h1, of 0 None 2 example_block 0]
  have w: "coor_weights example_block None ?x 0 2 = 0"
    using T h2 by blast
  have V: "{jj. jj < nbhd_size example_block ?x \<and> first_valid 2 0 0
               \<and> first_valid 2 0 (neighbor (nbhd_indices example_block ?x) 0 jj)} = {..<2}"
    by (auto simp: first_valid_def neighbor_def gather_def)
  have r: "rel_coors_normed example_block None ?x 0 jj 0 = - real jj" for jj
    by (simp add: rel_coors_normed_def example_block_def gather_def rel_coors_def
          sample_at_def line_coors_def)
  have v: "coor_weights example_block None ?x 0 jj = (if jj < 2 then 1 else 0)" for jj
    by (simp add: coor_weights_def pair_mask_neighbor neighbor_def gather_def first_valid_def
          example_coors_mlp)
  have c: "coors_out example_block ?x 0 0 = - 1"
    using conjunct2 [OF T] unfolding V by (simp add: r v sum_below_2)
  show ?thesis
    using h1 h2 w c by blast
qed


lemma finfo_max_large: "104 < finfo_max"
proof -
  have "(104::real) < 1 * 2 ^ 7" by simp
  also have "\<dots> \<le> (2 ^ 24 - 1) * 2 ^ 104"
    by (intro mult_mono power_increasing) simp_all
  finally show ?thesis by (simp add: finfo_max_def)
qed

lemma sim_masked:
  "mask_of x = Some mk \<Longrightarrow> \<not> mk i \<or> \<not> mk (neighbor nb i jj) \<Longrightarrow> sim m nb x h i jj = - finfo_max"
  by (auto simp: sim_def pair_mask_neighbor)

lemma sim_unmasked:
  "mask_of x = Some mk \<Longrightarrow> mk i \<Longrightarrow> mk (neighbor nb i jj)
     \<Longrightarrow> sim m nb x h i jj = to_attn_mlp m (m_ij m nb x h i jj)"
  by (auto simp: sim_def pair_mask_neighbor)

lemma attn_invalid_row:
  assumes "mask_of x = Some mk" and "\<not> mk i" and "0 < nbhd_size m x"
  shows "attn m x h i jj = 1 / real (nbhd_size m x)"
proof -
  have "sim m (nbhd_indices m x) x h i = (\<lambda>_. - finfo_max)"
    using assms by (intro ext) (simp add: sim_masked)
  then show ?thesis
    using assms(3) by (simp add: attn_def softmax_const)
qed

text \<open>
  Claim C5 as stated fails: with two nodes of which node \<open>1\<close> is marked invalid, the
  attention weight of the pair \<open>(1, 0)\<close> is \<open>1/2\<close>, not \<open>0\<close>. Every logit in the row of an
  invalid node is the same \<open>-finfo.max\<close>, and the softmax of a constant row is uniform.
\<close>

theorem attention_masked_counterexample:
  "\<not> first_valid 2 0 2
   \<and> attn example_block
        (sample_at 3 3 unit_feats (line_coors 1) None (Some (first_valid 2)) 0) 0 2 0 = 1 / 3"
  using attn_invalid_row [of "sample_at 3 3 unit_feats (line_coors 1) None (Some (first_valid 2)) 0"
      "first_valid 2 0" 2 example_block 0 0]
  by (simp add: first_valid_def)

text \<open>
  Claim C5, as the code has it. With a mask and a non-empty neighbour axis:
  the softmax never divides by zero (its denominator is at least \<open>1\<close>, so no NaN arises);
  in the row of a valid node \<open>i\<close>, a neighbour that is invalid has attention weight exactly
  \<open>0\<close>, provided some valid neighbour of \<open>i\<close> has a logit above \<open>104 - finfo.max\<close>;
  in the row of an invalid node \<open>i\<close> the weights are not \<open>0\<close> but uniform, \<open>1 / j\<close> each.
\<close>

theorem attention_masked:
  assumes "mask_of x = Some mk" and "0 < nbhd_size m x"
  shows "1 \<le> (\<Sum>l<nbhd_size m x.
                 exp32 (sim m (nbhd_indices m x) x h i l
                          - row_max (nbhd_size m x) (sim m (nbhd_indices m x) x h i)))
         \<and> (mk i \<and> \<not> mk (neighbor (nbhd_indices m x) i jj)
              \<and> (\<exists>l<nbhd_size m x. mk (neighbor (nbhd_indices m x) i l)
                     \<and> 104 - finfo_max < to_attn_mlp m (m_ij m (nbhd_indices m x) x h i l))
              \<longrightarrow> attn m x h i jj = 0)
         \<and> (\<not> mk i \<longrightarrow> attn m x h i jj = 1 / real (nbhd_size m x))"
proof (intro conjI impI)
  show "1 \<le> (\<Sum>l<nbhd_size m x.
                 exp32 (sim m (nbhd_indices m x) x h i l
                          - row_max (nbhd_size m x) (sim m (nbhd_indices m x) x h i)))"
    by (rule softmax_denominator [OF assms(2)])
next
  assume "\<not> mk i"
  then show "attn m x h i jj = 1 / real (nbhd_size m x)"
    by (rule attn_invalid_row [OF assms(1) _ assms(2)])
next
  let ?nb = "nbhd_indices m x" and ?J = "nbhd_size m x"
  assume a: "mk i \<and> \<not> mk (neighbor ?nb i jj)
              \<and> (\<exists>l<?J. mk (neighbor ?nb i l) \<and> 104 - finfo_max < to_attn_mlp m (m_ij m ?nb x h i l))"
  then obtain l where l: "l < ?J" "mk (neighbor ?nb i l)"
      "104 - finfo_max < to_attn_mlp m (m_ij m ?nb x h i l)"
    by blast
  have "sim m ?nb x h i l \<le> row_max ?J (sim m ?nb x h i)"
    by (rule row_max_attained(2) [OF assms(2) l(1)])
  moreover have "sim m ?nb x h i l = to_attn_mlp m (m_ij m ?nb x h i l)"
    using a l by (simp add: sim_unmasked [OF assms(1)])
  moreover have "sim m ?nb x h i jj = - finfo_max"
    using a by (simp add: sim_masked [OF assms(1)])
  ultimately have "sim m ?nb x h i jj - row_max ?J (sim m ?nb x h i) < - 104"
    using l(3) by linarith
  then show "attn m x h i jj = 0"
    by (simp add: attn_def softmax_def exp32_def)
qed

theorem attention_masked_witness:
  "mask_of (sample_at 3 3 unit_feats (line_coors 1) None (Some (first_valid 2)) 0)
     = Some (first_valid 2 0)
   \<and> 0 < nbhd_size example_block
            (sample_at 3 3 unit_feats (line_coors 1) None (Some (first_valid 2)) 0)
   \<and> first_valid 2 0 0 \<and> \<not> first_valid 2 0 2
   \<and> attn example_block
        (sample_at 3 3 unit_feats (line_coors 1) None (Some (first_valid 2)) 0) 0 0 2 = 0
   \<and> attn example_block
        (sample_at 3 3 unit_feats (line_coors 1) None (Some (first_valid 2)) 0) 0 2 0 = 1 / 3"
proof -
  let ?x = "sample_at 3 3 unit_feats (line_coors 1) None (Some (first_valid 2)) 0"
  have h1: "mask_of ?x = Some (first_valid 2 0)" and h2: "0 < nbhd_size example_block ?x"
    by simp_all
  have nb: "neighbor (nbhd_indices example_block ?x) i jj = jj" for i jj
    by (simp add: neighbor_def gather_def)
  have v: "first_valid 2 0 0" "\<not> first_valid 2 0 2"
    by (simp_all add: first_valid_def)
  have lg: "104 - finfo_max < to_attn_mlp example_block t" for t
    using finfo_max_large by (simp add: example_to_attn_mlp)
  have ex: "\<exists>l<nbhd_size example_block ?x.
              first_valid 2 0 (neighbor (nbhd_indices example_block ?x) 0 l)
              \<and> 104 - finfo_max
                  < to_attn_mlp example_block (m_ij example_block (nbhd_indices example_block ?x) ?x 0 0 l)"
    using v(1) lg h2 unfolding nb by blast
  have a: "attn example_block ?x 0 0 2 = 0"
    using attention_masked [OF h1 h2, of 0 0 2] v ex unfolding nb by blast
  have b: "attn example_block ?x 0 2 0 = 1 / 3"
    using attention_masked [OF h1 h2, of 0 2 0] v by simp
  show ?thesis
    using h1 h2 v a b by blast
qed


subsection \<open>Neighbour selection\<close>

lemma line_rel_dist:
  "rel_dist (sample_at n 3 feats (line_coors s) edges msk b) i j = \<bar>real i * s - real j * s\<bar>"
  by (simp add: rel_dist_def rel_coors_def vec_norm_def sample_at_def line_coors_def
        numeral_3_eq_3)

text \<open>
  What the sentinel does achieve: for a valid node whose distances to the valid nodes
  are all below \<open>1e5\<close>, and with at least \<open>k\<close> valid nodes, top-k selects valid nodes only.
\<close>

lemma sorted_key_split:
  "sorted (map f s) \<Longrightarrow> s = filter (\<lambda>j. f j < c) s @ filter (\<lambda>j. \<not> f j < c) s"
proof (induction s)
  case Nil
  then show ?case by simp
next
  case (Cons a s)
  then have le: "\<forall>y\<in>set s. f a \<le> f y" and ih: "s = filter (\<lambda>j. f j < c) s @ filter (\<lambda>j. \<not> f j < c) s"
    by simp_all
  show ?case
  proof (cases "f a < c")
    case True
    then show ?thesis using ih by simp
  next
    case False
    then have "\<forall>y\<in>set s. \<not> f y < c"
      using le by fastforce
    then have "filter (\<lambda>j. f j < c) s = []" and "filter (\<lambda>j. \<not> f j < c) s = s"
      by (simp_all add: filter_empty_conv filter_id_conv)
    then show ?thesis using False by simp
  qed
qed

lemma topk_valid_below_sentinel:
  fixes x :: sample
  assumes "mask_of x = Some mk" and "mk i"
    and "\<forall>j<nodes x. mk j \<longrightarrow> rel_dist x i j < 10 ^ 5"
    and "k \<le> card {j. j < nodes x \<and> mk j}"
  shows "\<forall>j\<in>set (topk_indices k (nbhd_ranking x i)). mk j"
proof -
  let ?row = "nbhd_ranking x i" and ?n = "nodes x"
  let ?f = "\<lambda>j. ?row ! j"
  let ?s = "sort_key ?f [0..<?n]"
  let ?P = "\<lambda>j. ?f j < 10 ^ 5"
  have len: "length ?row = ?n"
    by (simp add: nbhd_ranking_def)
  have P: "?P j \<longleftrightarrow> mk j" if "j < ?n" for j
    using that assms(1,2,3) by (simp add: nbhd_ranking_def)
  have "filter ?P ?s = sort_key ?f (filter ?P [0..<?n])"
    by (rule filter_sort)
  also have "filter ?P [0..<?n] = filter mk [0..<?n]"
    by (rule filter_cong) (use P in simp_all)
  finally have fs: "filter ?P ?s = sort_key ?f (filter mk [0..<?n])" .
  have "length (filter mk [0..<?n]) = card {j. j < ?n \<and> mk j}"
  proof -
    have "distinct (filter mk [0..<?n])" by simp
    then have "length (filter mk [0..<?n]) = card (set (filter mk [0..<?n]))"
      by (rule distinct_card [symmetric])
    also have "set (filter mk [0..<?n]) = {j. j < ?n \<and> mk j}"
      by auto
    finally show ?thesis .
  qed
  then have k: "k \<le> length (filter ?P ?s)"
    using assms(4) unfolding fs by simp
  have "?s = filter ?P ?s @ filter (\<lambda>j. \<not> ?P j) ?s"
    by (rule sorted_key_split) simp
  then have "take k ?s = take k (filter ?P ?s @ filter (\<lambda>j. \<not> ?P j) ?s)"
    by simp
  also have "\<dots> = take k (filter ?P ?s)"
    using k by simp
  finally have "take k ?s = take k (filter ?P ?s)" .
  then have "set (take k ?s) \<subseteq> set (filter ?P ?s)"
    using set_take_subset [of k "filter ?P ?s"] by (simp only:)
  then have "set (take k ?s) \<subseteq> set (filter mk [0..<?n])"
    unfolding fs by simp
  then show ?thesis
    by (auto simp: topk_indices_def len)
qed

text \<open>
  Claim C7: under a mask, pairs with an invalid endpoint are to rank after every valid
  pair, so that a node with at least \<open>k\<close> valid neighbours selects valid nodes only. The
  sentinel is the constant \<open>1e5\<close>: four nodes on a line, \<open>200000\<close> apart, the first three
  valid, \<open>k = 2\<close>. Node \<open>0\<close> ranks the padding node \<open>3\<close> before its valid neighbours
  \<open>1\<close> and \<open>2\<close> and selects it.
\<close>

theorem padding_selected_as_neighbor:
  "first_valid 3 0 0 \<and> first_valid 3 0 1 \<and> first_valid 3 0 2 \<and> \<not> first_valid 3 0 3
   \<and> \<not> isl (forward knn_block 4 3 unit_feats (line_coors 200000) None (Some (first_valid 3)) None)
   \<and> nbhd_ranking (sample_at 4 3 unit_feats (line_coors 200000) None (Some (first_valid 3)) 0) 0
        = [0, 200000, 400000, 100000]
   \<and> the (nbhd_indices knn_block
             (sample_at 4 3 unit_feats (line_coors 200000) None (Some (first_valid 3)) 0)) 0
        = [0, 3]"
proof -
  let ?x = "sample_at 4 3 unit_feats (line_coors 200000) None (Some (first_valid 3)) 0"
  have up: "[0..<4] = [0, 1, 2, 3::nat]"
    by (simp add: upt_rec)
  have r: "nbhd_ranking ?x 0 = [0, 200000, 400000, 100000]"
    by (simp add: nbhd_ranking_def line_rel_dist up first_valid_def)
  have t: "topk_indices 2 [0, 200000, 400000, 100000] = [0, 3]"
    by (simp add: topk_indices_def up)
  have "the (nbhd_indices knn_block ?x) 0 = [0, 3]"
    by (simp add: nbhd_indices_def knn_block_def example_block_def r t)
  then show ?thesis
    using r by (simp add: first_valid_def forward_def Let_def knn_block_def example_block_def)
qed


subsection \<open>Translation\<close>

lemma rel_coors_translate:
  "rel_coors (x\<lparr>coors_of := \<lambda>i. translate t (coors_of x i)\<rparr>) = rel_coors x"
  by (intro ext) (simp add: rel_coors_def translate_def)

lemma rel_dist_translate:
  "rel_dist (x\<lparr>coors_of := \<lambda>i. translate t (coors_of x i)\<rparr>) = rel_dist x"
  by (intro ext) (simp add: rel_dist_def rel_coors_translate)

lemma nbhd_ranking_translate:
  "nbhd_ranking (x\<lparr>coors_of := \<lambda>i. translate t (coors_of x i)\<rparr>) = nbhd_ranking x"
  by (intro ext) (simp add: nbhd_ranking_def rel_dist_translate cong: if_cong option.case_cong)

lemma feats_out_translate:
  "feats_out m (x\<lparr>coors_of := \<lambda>i. translate t (coors_of x i)\<rparr>) = feats_out m x"
  by (intro ext)
     (simp add: block_defs Let_def rel_coors_translate rel_dist_translate nbhd_ranking_translate
        cong: if_cong option.case_cong)

lemma coors_out_translate:
  "coors_out m (x\<lparr>coors_of := \<lambda>i. translate t (coors_of x i)\<rparr>) = coors_out m x"
  by (intro ext)
     (simp add: block_defs Let_def rel_coors_translate rel_dist_translate nbhd_ranking_translate
        cong: if_cong option.case_cong)

lemma sample_at_translate:
  "sample_at n cd feats (\<lambda>b i. translate t (coors b i)) edges msk b
     = (sample_at n cd feats coors edges msk b)
         \<lparr>coors_of := \<lambda>i. translate t (coors_of (sample_at n cd feats coors edges msk b) i)\<rparr>"
  by (simp add: sample_at_def)

text \<open>
  Claim C2: adding one translation vector \<open>t\<close> to every input coordinate changes neither
  the feature delta nor the coordinate delta (nor whether the call fails), with or without
  edges, mask and adjacency, for every block.
\<close>

theorem translation_invariance:
  "forward m n cd feats (\<lambda>b i. translate t (coors b i)) edges msk adj_mat
     = forward m n cd feats coors edges msk adj_mat"
  by (simp add: forward_def Let_def sample_at_translate feats_out_translate coors_out_translate)


subsection \<open>Rotation\<close>

lemma rotate_diff: "rotate_vec R cd (\<lambda>c. a c - b c) = (\<lambda>c. rotate_vec R cd a c - rotate_vec R cd b c)"
  by (intro ext) (simp add: rotate_vec_def left_diff_distrib sum_subtractf)

lemma vec_norm_rotate:
  assumes "\<forall>d<cd. \<forall>e<cd. (\<Sum>c<cd. R c d * R c e) = (if d = e then 1 else 0)"
  shows "vec_norm cd (rotate_vec R cd v) = vec_norm cd v"
proof -
  have "(\<Sum>c<cd. (rotate_vec R cd v c)\<^sup>2)
          = (\<Sum>c<cd. \<Sum>d<cd. \<Sum>e<cd. (v d * v e) * (R c d * R c e))"
    by (simp add: rotate_vec_def power2_eq_square sum_product mult_ac)
  also have "\<dots> = (\<Sum>d<cd. \<Sum>c<cd. \<Sum>e<cd. (v d * v e) * (R c d * R c e))"
    by (rule sum.swap)
  also have "\<dots> = (\<Sum>d<cd. \<Sum>e<cd. \<Sum>c<cd. (v d * v e) * (R c d * R c e))"
    by (intro sum.cong refl sum.swap)
  also have "\<dots> = (\<Sum>d<cd. \<Sum>e<cd. (v d * v e) * (\<Sum>c<cd. R c d * R c e))"
    by (simp add: sum_distrib_left)
  also have "\<dots> = (\<Sum>d<cd. \<Sum>e<cd. (if d = e then v d * v e else 0))"
    using assms by (intro sum.cong refl) simp
  also have "\<dots> = (\<Sum>d<cd. (v d)\<^sup>2)"
    by (intro sum.cong refl) (simp add: power2_eq_square)
  finally show ?thesis
    by (simp add: vec_norm_def)
qed


lemma rel_coors_rotate:
  "rel_coors (x\<lparr>coors_of := \<lambda>i. rotate_vec R cd (coors_of x i)\<rparr>)
     = (\<lambda>i j. rotate_vec R cd (rel_coors x i j))"
  by (intro ext) (simp add: rel_coors_def rotate_diff)

lemma rel_dist_rotate:
  assumes "\<forall>d<coor_dim x. \<forall>e<coor_dim x. (\<Sum>c<coor_dim x. R c d * R c e) = (if d = e then 1 else 0)"
  shows "rel_dist (x\<lparr>coors_of := \<lambda>i. rotate_vec R (coor_dim x) (coors_of x i)\<rparr>) = rel_dist x"
  by (intro ext) (simp add: rel_dist_def rel_coors_rotate vec_norm_rotate [OF assms])

lemma nbhd_ranking_rotate:
  assumes "\<forall>d<coor_dim x. \<forall>e<coor_dim x. (\<Sum>c<coor_dim x. R c d * R c e) = (if d = e then 1 else 0)"
  shows "nbhd_ranking (x\<lparr>coors_of := \<lambda>i. rotate_vec R (coor_dim x) (coors_of x i)\<rparr>) = nbhd_ranking x"
  by (intro ext)
     (simp add: nbhd_ranking_def rel_dist_rotate [OF assms] cong: if_cong option.case_cong)

lemma feats_out_rotate:
  assumes "\<forall>d<coor_dim x. \<forall>e<coor_dim x. (\<Sum>c<coor_dim x. R c d * R c e) = (if d = e then 1 else 0)"
  shows "feats_out m (x\<lparr>coors_of := \<lambda>i. rotate_vec R (coor_dim x) (coors_of x i)\<rparr>) = feats_out m x"
  by (intro ext)
     (simp add: block_defs Let_def rel_dist_rotate [OF assms] nbhd_ranking_rotate [OF assms]
        cong: if_cong option.case_cong)

lemma coor_weights_rotate:
  assumes "\<forall>d<coor_dim x. \<forall>e<coor_dim x. (\<Sum>c<coor_dim x. R c d * R c e) = (if d = e then 1 else 0)"
  shows "coor_weights m nb (x\<lparr>coors_of := \<lambda>i. rotate_vec R (coor_dim x) (coors_of x i)\<rparr>)
           = coor_weights m nb x"
  by (intro ext)
     (simp add: block_defs Let_def rel_dist_rotate [OF assms]
        cong: if_cong option.case_cong)

lemma CoorsNorm_rotate:
  assumes "\<forall>d<cd. \<forall>e<cd. (\<Sum>c<cd. R c d * R c e) = (if d = e then 1 else 0)"
  shows "CoorsNorm_forward cn cd (rotate_vec R cd v) = rotate_vec R cd (CoorsNorm_forward cn cd v)"
  unfolding CoorsNorm_forward_def Let_def vec_norm_rotate [OF assms]
  by (intro ext) (simp add: rotate_vec_def sum_distrib_left sum_divide_distrib mult.assoc)

lemma rel_coors_normed_rotate:
  assumes "\<forall>d<coor_dim x. \<forall>e<coor_dim x. (\<Sum>c<coor_dim x. R c d * R c e) = (if d = e then 1 else 0)"
  shows "rel_coors_normed m nb (x\<lparr>coors_of := \<lambda>i. rotate_vec R (coor_dim x) (coors_of x i)\<rparr>) i jj
           = rotate_vec R (coor_dim x) (rel_coors_normed m nb x i jj)"
  by (simp add: rel_coors_normed_def rel_coors_rotate gather_comp CoorsNorm_rotate [OF assms]
        split: option.splits)

lemma coors_out_rotate:
  assumes "\<forall>d<coor_dim x. \<forall>e<coor_dim x. (\<Sum>c<coor_dim x. R c d * R c e) = (if d = e then 1 else 0)"
  shows "coors_out m (x\<lparr>coors_of := \<lambda>i. rotate_vec R (coor_dim x) (coors_of x i)\<rparr>) i
           = rotate_vec R (coor_dim x) (coors_out m x i)"
proof -
  let ?x' = "x\<lparr>coors_of := \<lambda>i. rotate_vec R (coor_dim x) (coors_of x i)\<rparr>"
  have nb: "nbhd_indices m ?x' = nbhd_indices m x"
    by (simp add: nbhd_indices_def nbhd_ranking_rotate [OF assms])
  have sz: "nbhd_size m ?x' = nbhd_size m x"
    by (simp add: nbhd_size_def nb cong: option.case_cong)
  show ?thesis
  proof
    fix c
    have "coors_out m ?x' i c
            = (\<Sum>jj<nbhd_size m x. \<Sum>d<coor_dim x.
                 coor_weights m (nbhd_indices m x) x i jj
                   * rel_coors_normed m (nbhd_indices m x) x i jj d * R c d)"
      unfolding coors_out_def Let_def nb sz coor_weights_rotate [OF assms]
        rel_coors_normed_rotate [OF assms]
      by (simp add: rotate_vec_def sum_distrib_left mult.assoc)
    also have "\<dots> = (\<Sum>d<coor_dim x. \<Sum>jj<nbhd_size m x.
                 coor_weights m (nbhd_indices m x) x i jj
                   * rel_coors_normed m (nbhd_indices m x) x i jj d * R c d)"
      by (rule sum.swap)
    also have "\<dots> = rotate_vec R (coor_dim x) (coors_out m x i) c"
      by (simp add: coors_out_def Let_def rotate_vec_def sum_distrib_right)
    finally show "coors_out m ?x' i c = rotate_vec R (coor_dim x) (coors_out m x i) c" .
  qed
qed

lemma sample_at_rotate:
  "sample_at n cd feats (\<lambda>b i. rotate_vec R cd (coors b i)) edges msk b
     = (sample_at n cd feats coors edges msk b)
         \<lparr>coors_of := \<lambda>i. rotate_vec R (coor_dim (sample_at n cd feats coors edges msk b))
                              (coors_of (sample_at n cd feats coors edges msk b) i)\<rparr>"
  by (simp add: sample_at_def)

lemma coor_dim_sample_at [simp]: "coor_dim (sample_at n cd feats coors edges msk b) = cd"
  by (simp add: sample_at_def)

text \<open>
  Claim C1: for a matrix \<open>R\<close> with \<open>R\<^sup>T R = 1\<close> on the coordinate axis (every rotation is
  one), applying \<open>R\<close> to every input coordinate leaves the feature delta unchanged and
  applies \<open>R\<close> to the coordinate delta, for every block (with or without
  \<open>norm_rel_coors\<close>, dense or top-k), with or without edges, mask and adjacency; a call
  that fails, fails the same way.
\<close>

theorem rotation_equivariance:
  assumes "\<forall>d<cd. \<forall>e<cd. (\<Sum>c<cd. R c d * R c e) = (if d = e then 1 else 0)"
  shows "forward m n cd feats (\<lambda>b i. rotate_vec R cd (coors b i)) edges msk adj_mat
           = map_sum id (\<lambda>(f, c). (f, \<lambda>b i. rotate_vec R cd (c b i)))
               (forward m n cd feats coors edges msk adj_mat)"
proof -
  have o: "\<forall>d<coor_dim (sample_at n cd feats coors edges msk b).
             \<forall>e<coor_dim (sample_at n cd feats coors edges msk b).
               (\<Sum>c<coor_dim (sample_at n cd feats coors edges msk b). R c d * R c e)
                 = (if d = e then 1 else 0)" for b
    using assms by simp
  have f: "feats_out m (sample_at n cd feats (\<lambda>b i. rotate_vec R cd (coors b i)) edges msk b)
             = feats_out m (sample_at n cd feats coors edges msk b)" for b
    unfolding sample_at_rotate by (rule feats_out_rotate [OF o])
  have c: "coors_out m (sample_at n cd feats (\<lambda>b i. rotate_vec R cd (coors b i)) edges msk b)
             = (\<lambda>i. rotate_vec R cd (coors_out m (sample_at n cd feats coors edges msk b) i))" for b
    unfolding sample_at_rotate using coors_out_rotate [OF o] by (intro ext) simp
  show ?thesis
    by (simp add: forward_def Let_def f c)
qed

theorem rotation_equivariance_witness:
  "forward example_block 2 3 unit_feats (\<lambda>b i. rotate_vec quarter_turn 3 (line_coors 1 b i))
     None None None
     = map_sum id (\<lambda>(f, c). (f, \<lambda>b i. rotate_vec quarter_turn 3 (c b i)))
         (forward example_block 2 3 unit_feats (line_coors 1) None None None)"
proof -
  have h: "\<forall>d<3. \<forall>e<3. (\<Sum>c<3. quarter_turn c d * quarter_turn c e) = (if d = e then 1 else 0)"
    by (simp add: quarter_turn_def numeral_3_eq_3 less_Suc_eq)
  show ?thesis
    by (rule rotation_equivariance [OF h])
qed


subsection \<open>Top-k over all nodes\<close>

lemmas pair_defs = sim_def rel_coors_normed_def coor_weights_def coor_mlp_input_def m_ij_def
  edge_input_def vals_def keys_def rel_dist_pos_emb_def pair_mask_def coors_mlp_def
  to_attn_mlp_def edge_mlp_def to_pos_emb_def qkv_def head_dim_def chunk_size_def dist_feats_def

lemma neighbor_simps [simp]:
  "neighbor None i j = j" "neighbor (Some ix) i jj = ix i ! jj"
  by (simp_all add: neighbor_def gather_def batched_index_select_def)

lemma coor_weights_reindex:
  "coor_weights (m\<lparr>num_nearest_neighbors_of := k\<rparr>) nb x i jj
     = coor_weights (m\<lparr>num_nearest_neighbors_of := k'\<rparr>) None x i (neighbor nb i jj)"
  by (simp add: pair_defs gather_neighbor cong: if_cong option.case_cong)

lemma rel_coors_normed_reindex:
  "rel_coors_normed (m\<lparr>num_nearest_neighbors_of := k\<rparr>) nb x i jj
     = rel_coors_normed (m\<lparr>num_nearest_neighbors_of := k'\<rparr>) None x i (neighbor nb i jj)"
  by (simp add: pair_defs gather_neighbor cong: if_cong option.case_cong)

lemma sim_reindex:
  "sim (m\<lparr>num_nearest_neighbors_of := k\<rparr>) nb x h i jj
     = sim (m\<lparr>num_nearest_neighbors_of := k'\<rparr>) None x h i (neighbor nb i jj)"
  by (simp add: pair_defs gather_neighbor cong: if_cong option.case_cong)

lemma vals_reindex:
  "vals (m\<lparr>num_nearest_neighbors_of := k\<rparr>) nb x h i jj
     = vals (m\<lparr>num_nearest_neighbors_of := k'\<rparr>) None x h i (neighbor nb i jj)"
  by (simp add: pair_defs gather_neighbor cong: if_cong option.case_cong)

text \<open>A sum along a list that holds each index below \<open>n\<close> once is the sum over the indices.\<close>

lemma sum_reindex:
  fixes F :: "nat \<Rightarrow> real"
  assumes "distinct p" and "set p = {..<n}"
  shows "(\<Sum>jj<n. F (p ! jj)) = (\<Sum>j<n. F j)"
proof -
  have len: "length p = n"
    using assms distinct_card [of p] by simp
  have "(\<Sum>jj<n. F (p ! jj)) = sum_list (map F p)"
    by (simp add: sum_list_sum_nth len atLeast0LessThan)
  also have "\<dots> = sum F (set p)"
    using assms(1) by (rule sum_list_distinct_conv_sum_set)
  finally show ?thesis
    by (simp add: assms(2))
qed

lemma row_max_reindex:
  assumes "distinct p" and "set p = {..<n}"
  shows "row_max n (\<lambda>jj. S (p ! jj)) = row_max n S"
proof -
  have len: "length p = n"
    using assms distinct_card [of p] by simp
  have "(\<lambda>jj. p ! jj) ` {..<n} = set p"
    using len by (auto simp: set_conv_nth)
  then have "(\<lambda>jj. S (p ! jj)) ` {..<n} = S ` {..<n}"
    using assms(2) by (metis image_image)
  then show ?thesis
    by (simp add: row_max_def)
qed

lemma softmax_reindex:
  assumes "distinct p" and "set p = {..<n}"
  shows "softmax n (\<lambda>jj. S (p ! jj)) jj = softmax n S (p ! jj)"
  by (simp add: softmax_def row_max_reindex [OF assms]
        sum_reindex [OF assms, of "\<lambda>j. exp32 (S j - row_max n S)"])

lemma topk_all:
  "length row = n \<Longrightarrow> distinct (topk_indices n row) \<and> set (topk_indices n row) = {..<n}"
  by (auto simp: topk_indices_def)


lemma dense_sparse_sample:
  assumes "nodes x = n" and "mask_of x = None" and "0 < n"
  shows "feats_out (m\<lparr>num_nearest_neighbors_of := n\<rparr>) x
           = feats_out (m\<lparr>num_nearest_neighbors_of := 0\<rparr>) x"
    and "coors_out (m\<lparr>num_nearest_neighbors_of := n\<rparr>) x
           = coors_out (m\<lparr>num_nearest_neighbors_of := 0\<rparr>) x"
proof -
  let ?m1 = "m\<lparr>num_nearest_neighbors_of := n\<rparr>" and ?m0 = "m\<lparr>num_nearest_neighbors_of := 0\<rparr>"
  define ix where "ix = (\<lambda>i. topk_indices n (nbhd_ranking x i))"
  have nb1: "nbhd_indices ?m1 x = Some ix" and sz1: "nbhd_size ?m1 x = n"
    using assms(3) by (simp_all add: nbhd_indices_def nbhd_size_def ix_def)
  have nb0: "nbhd_indices ?m0 x = None" and sz0: "nbhd_size ?m0 x = n"
    using assms(1) by (simp_all add: nbhd_indices_def nbhd_size_def)
  have p: "distinct (ix i)" "set (ix i) = {..<n}" for i
    using topk_all [of "nbhd_ranking x i" n] assms(1) by (simp_all add: ix_def nbhd_ranking_def)
  have a: "attn ?m1 x h i jj = attn ?m0 x h i (ix i ! jj)" for h i jj
  proof -
    have "sim ?m1 (Some ix) x h i = (\<lambda>jj. sim ?m0 None x h i (ix i ! jj))"
      by (intro ext) (simp add: sim_reindex [where k = n and k' = 0 and nb = "Some ix"])
    then show ?thesis
      by (simp add: attn_def nb1 sz1 nb0 sz0 softmax_reindex [OF p])
  qed
  show "coors_out ?m1 x = coors_out ?m0 x"
  proof (intro ext)
    fix i c
    have "coors_out ?m1 x i c
            = (\<Sum>jj<n. coor_weights ?m0 None x i (ix i ! jj)
                          * rel_coors_normed ?m0 None x i (ix i ! jj) c)"
      by (simp add: coors_out_def Let_def nb1 sz1
            coor_weights_reindex [where k = n and k' = 0 and nb = "Some ix"]
            rel_coors_normed_reindex [where k = n and k' = 0 and nb = "Some ix"])
    also have "\<dots> = (\<Sum>j<n. coor_weights ?m0 None x i j * rel_coors_normed ?m0 None x i j c)"
      by (rule sum_reindex [OF p])
    also have "\<dots> = coors_out ?m0 x i c"
      by (simp add: coors_out_def Let_def nb0 sz0)
    finally show "coors_out ?m1 x i c = coors_out ?m0 x i c" .
  qed
  have ho: "heads_out ?m1 x h i d = heads_out ?m0 x h i d" for h i d
  proof -
    have "heads_out ?m1 x h i d
            = (\<Sum>jj<n. attn ?m0 x h i (ix i ! jj) * vals ?m0 None x h i (ix i ! jj) d)"
      by (simp add: heads_out_def nb1 sz1 a vals_reindex [where k = n and k' = 0 and nb = "Some ix"])
    also have "\<dots> = (\<Sum>j<n. attn ?m0 x h i j * vals ?m0 None x h i j d)"
      by (rule sum_reindex [OF p])
    also have "\<dots> = heads_out ?m0 x h i d"
      by (simp add: heads_out_def nb0 sz0)
    finally show ?thesis .
  qed
  show "feats_out ?m1 x = feats_out ?m0 x"
    by (intro ext) (simp add: feats_out_def ho head_dim_def chunk_size_def)
qed

text \<open>
  Claim C9: without a mask, on an input of \<open>n\<close> nodes, a block with
  \<open>num_nearest_neighbors = n\<close> and the same block with \<open>num_nearest_neighbors = 0\<close> give
  the same feature delta and coordinate delta (and fail alike): top-k of all \<open>n\<close> nodes
  only reorders the neighbour axis, over which both outputs are sums.
\<close>

theorem dense_sparse_equivalence:
  "forward (m\<lparr>num_nearest_neighbors_of := n\<rparr>) n cd feats coors edges None adj_mat
     = forward (m\<lparr>num_nearest_neighbors_of := 0\<rparr>) n cd feats coors edges None adj_mat"
proof (cases "n = 0")
  case True
  then show ?thesis by simp
next
  case False
  then have "0 < n" by simp
  then have "feats_out (m\<lparr>num_nearest_neighbors_of := n\<rparr>) (sample_at n cd feats coors edges None b)
               = feats_out (m\<lparr>num_nearest_neighbors_of := 0\<rparr>) (sample_at n cd feats coors edges None b)"
    and "coors_out (m\<lparr>num_nearest_neighbors_of := n\<rparr>) (sample_at n cd feats coors edges None b)
               = coors_out (m\<lparr>num_nearest_neighbors_of := 0\<rparr>) (sample_at n cd feats coors edges None b)"
    for b
    by (simp_all add: dense_sparse_sample sample_at_def)
  then show ?thesis
    by (simp add: forward_def Let_def)
qed

end
